theory Spec2Isabelle
  imports
    Complex_Main
    "HOL-Library.AList"
    "HOL-Library.Multiset"
    "HOL-Library.Char_ord"
    "HOL-Library.List_Lexorder"
begin

section \<open>Data model of \<^verbatim>\<open>combine_raw_data.py\<close>\<close>

text \<open>
  The embedding follows \<^verbatim>\<open>src/exploration/combine_raw_data.py\<close>. What belongs to pandas
  rather than to the repository is modelled as follows.
  \<^item> A pandas timestamp is its integer value in nanoseconds (\<open>ts_value\<close>: the UTC instant of an
    aware timestamp, the wall clock of a naive one) and its optional time zone. The value of a
    pandas timestamp is a signed 64 bit integer; the one addition of the source that can leave
    that range (line 96) raises in the model as it does in pandas.
  \<^item> Floating point values are real numbers; a null (NaN) cell is \<open>None\<close>. The cast to
    \<^verbatim>\<open>float32\<close> of the writer is therefore not modelled.
  \<^item> \<^verbatim>\<open>pd.to_datetime\<close> is a parameter \<open>to_datetime\<close>: it returns \<open>None\<close> where pandas
    raises, and otherwise a timestamp or the missing value \<^verbatim>\<open>NaT\<close> (which pandas returns
    without raising for values such as the empty string).
  \<^item> The cadence string is a fixed width \<open>c\<close> in nanoseconds (the tick frequencies of pandas,
    such as \<^verbatim>\<open>15T\<close>, \<^verbatim>\<open>1h\<close>, \<^verbatim>\<open>1D\<close>); calendar anchored frequencies are outside the model.
    Bins are anchored at the midnight of the first reading's day (\<^verbatim>\<open>origin='start_day'\<close>),
    computed on the nanosecond value, as pandas does for a naive or a UTC index.
\<close>

type_synonym tzname = string

record timestamp =
  ts_value :: int
  ts_tz :: "tzname option"

definition day_ns :: int where
  "day_ns = 86400000000000"

text \<open>What \<^verbatim>\<open>pd.to_datetime\<close> returns when it does not raise.\<close>

datatype datetime = NaT | Stamp timestamp

text \<open>The largest nanosecond value of a pandas timestamp, \<open>2 ^ 63 - 1\<close>.\<close>

definition max_ns :: int where
  "max_ns = 9223372036854775807"

text \<open>
  \<^verbatim>\<open>install_datetime + pd.Timedelta(days=1)\<close>: an absolute shift by 24 hours, which raises
  (\<open>None\<close>) when the sum is beyond the largest timestamp.
\<close>

definition plus_one_day :: "timestamp \<Rightarrow> timestamp option" where
  "plus_one_day t =
     (if ts_value t + day_ns \<le> max_ns then Some (t\<lparr>ts_value := ts_value t + day_ns\<rparr>)
      else None)"

text \<open>
  \<^verbatim>\<open>tz_localize\<close> attaches a zone to a naive timestamp; for the zone UTC the nanosecond value
  is unchanged. \<^verbatim>\<open>tz_convert\<close> changes the zone of an aware timestamp and keeps the instant.
  The source calls the first only on a naive and the second only on an aware timestamp.
\<close>

definition tz_localize_utc :: "timestamp \<Rightarrow> timestamp" where
  "tz_localize_utc t = t\<lparr>ts_tz := Some ''UTC''\<rparr>"

definition tz_convert :: "tzname \<Rightarrow> timestamp \<Rightarrow> timestamp" where
  "tz_convert z t = t\<lparr>ts_tz := Some z\<rparr>"

text \<open>One feature of the GeoJSON metadata; an absent or null property is \<open>None\<close>.\<close>

record meta_row =
  m_id :: string
  Date_installed :: "string option"
  Asennettu_pvm :: "string option"

record geodataframe =
  gdf_has_id :: bool
  gdf_rows :: "meta_row list"

text \<open>
  One raw reading: the index value, the \<^verbatim>\<open>dev-id\<close> cell and the cells of the numeric columns
  other than \<^verbatim>\<open>dev-id\<close>, in column order. Aggregated rows have the same shape.
\<close>

record reading =
  r_time :: int
  r_dev :: string
  r_vals :: "real option list"

record dataframe =
  df_has_dev_id :: bool
  df_index_tz :: "tzname option"
  df_numeric_columns :: "string list"
  df_rows :: "reading list"

datatype error =
  KeyError_dev_id
  | KeyError_id
  | ZeroDivisionError
  | NoMatchingDevices
  | TypeError_tz_compare
  | ValueError_no_objects

datatype log_event =
  Cutoff_logged string timestamp
  | Parse_error_logged string string
  | No_install_date_logged string

section \<open>Installation dates (lines 80 to 116)\<close>

text \<open>The \<^verbatim>\<open>if pd.notna(..) / elif pd.notna(..)\<close> choice of the install date field.\<close>

definition install_date :: "meta_row \<Rightarrow> string option" where
  "install_date row =
     (case Date_installed row of
        Some s \<Rightarrow> Some s
      | None \<Rightarrow> (case Asennettu_pvm row of Some s \<Rightarrow> Some s | None \<Rightarrow> None))"

text \<open>Lines 99 to 105: the cutoff is only touched when the index of the readings is aware.\<close>

definition normalize_cutoff :: "tzname option \<Rightarrow> timestamp \<Rightarrow> timestamp" where
  "normalize_cutoff index_tz cutoff_date =
     (case index_tz of
        None \<Rightarrow> cutoff_date
      | Some z \<Rightarrow>
          (case ts_tz cutoff_date of
             None \<Rightarrow> tz_localize_utc cutoff_date
           | Some z' \<Rightarrow> if z' \<noteq> z then tz_convert z cutoff_date else cutoff_date))"

text \<open>
  One iteration of the loop over \<^verbatim>\<open>gdf.iterrows()\<close>. The dictionary
  \<^verbatim>\<open>device_install_dates\<close> is an association list in insertion order; an assignment to a key
  already present replaces the value in place, as a Python dict does.

  The body of the \<^verbatim>\<open>try\<close> has three ways to go.
  \<^item> \<^verbatim>\<open>pd.to_datetime\<close> (line 94) or the addition of one day (line 96) raises: the
    \<^verbatim>\<open>except\<close> prints the error and nothing is stored.
  \<^item> \<^verbatim>\<open>pd.to_datetime\<close> returns \<^verbatim>\<open>NaT\<close>: the sum and its time zone handling are \<^verbatim>\<open>NaT\<close>
    again, line 107 stores \<^verbatim>\<open>NaT\<close> in the dictionary, and only then \<^verbatim>\<open>strftime\<close> raises
    inside the \<^verbatim>\<open>print\<close> of lines 108 to 110; the \<^verbatim>\<open>except\<close> prints the error and
    the entry stays.
  \<^item> Otherwise the normalized cutoff is stored and printed.
\<close>

definition register_row ::
  "(string \<Rightarrow> datetime option) \<Rightarrow> tzname option \<Rightarrow>
   (string \<times> datetime) list \<times> log_event list \<Rightarrow> meta_row \<Rightarrow>
   (string \<times> datetime) list \<times> log_event list" where
  "register_row to_datetime index_tz st row =
     (case install_date row of
        None \<Rightarrow> (fst st, snd st @ [No_install_date_logged (m_id row)])
      | Some s \<Rightarrow>
          (case to_datetime s of
             None \<Rightarrow> (fst st, snd st @ [Parse_error_logged (m_id row) s])
           | Some NaT \<Rightarrow>
               (AList.update (m_id row) NaT (fst st),
                snd st @ [Parse_error_logged (m_id row) s])
           | Some (Stamp install_datetime) \<Rightarrow>
               (case plus_one_day install_datetime of
                  None \<Rightarrow> (fst st, snd st @ [Parse_error_logged (m_id row) s])
                | Some shifted \<Rightarrow>
                    (let cutoff_date = normalize_cutoff index_tz shifted
                     in (AList.update (m_id row) (Stamp cutoff_date) (fst st),
                         snd st @ [Cutoff_logged (m_id row) cutoff_date])))))"

text \<open>The dictionary entry that one metadata record writes, if any.\<close>

definition stored_cutoff ::
  "(string \<Rightarrow> datetime option) \<Rightarrow> tzname option \<Rightarrow> meta_row \<Rightarrow> datetime option" where
  "stored_cutoff to_datetime index_tz row =
     (case install_date row of
        None \<Rightarrow> None
      | Some s \<Rightarrow>
          (case to_datetime s of
             None \<Rightarrow> None
           | Some NaT \<Rightarrow> Some NaT
           | Some (Stamp install_datetime) \<Rightarrow>
               map_option (\<lambda>shifted. Stamp (normalize_cutoff index_tz shifted))
                 (plus_one_day install_datetime)))"

definition parse_install_dates ::
  "(string \<Rightarrow> datetime option) \<Rightarrow> tzname option \<Rightarrow> meta_row list \<Rightarrow>
   (string \<times> datetime) list \<times> log_event list" where
  "parse_install_dates to_datetime index_tz rows =
     foldl (register_row to_datetime index_tz) ([], []) rows"

section \<open>Device filter and installation window filter (lines 118 to 153)\<close>

definition valid_device_ids :: "geodataframe \<Rightarrow> string set" where
  "valid_device_ids gdf = set (map m_id (gdf_rows gdf))"

definition device_filter :: "string set \<Rightarrow> reading list \<Rightarrow> reading list" where
  "device_filter valid rows = filter (\<lambda>r. r_dev r \<in> valid) rows"

text \<open>
  \<^verbatim>\<open>filtered_df.index >= cutoff_date\<close> raises a TypeError when exactly one side is aware;
  against \<^verbatim>\<open>NaT\<close> it does not raise and is false for every row.
\<close>

definition comparable :: "tzname option \<Rightarrow> datetime \<Rightarrow> bool" where
  "comparable index_tz cutoff_date =
     (case cutoff_date of
        NaT \<Rightarrow> True
      | Stamp c \<Rightarrow> ((index_tz = None) = (ts_tz c = None)))"

definition index_ge :: "int \<Rightarrow> datetime \<Rightarrow> bool" where
  "index_ge t cutoff_date =
     (case cutoff_date of NaT \<Rightarrow> False | Stamp c \<Rightarrow> ts_value c \<le> t)"

text \<open>The loop of lines 139 to 153: one pass over the whole data set per dictionary item.\<close>

fun install_window_filter ::
  "tzname option \<Rightarrow> (string \<times> datetime) list \<Rightarrow> reading list \<Rightarrow> error + reading list" where
  "install_window_filter index_tz [] rows = Inr rows"
| "install_window_filter index_tz ((device_id, cutoff_date) # rest) rows =
     (if \<not> comparable index_tz cutoff_date then Inl TypeError_tz_compare
      else install_window_filter index_tz rest
             (filter (\<lambda>r. r_dev r \<noteq> device_id \<or> index_ge (r_time r) cutoff_date) rows))"

section \<open>Resampling (pandas \<^verbatim>\<open>resample(freq, label=..).mean()\<close>)\<close>

datatype label = Label_left | Label_right

definition start_day :: "int \<Rightarrow> int" where
  "start_day t = (t div day_ns) * day_ns"

text \<open>
  For a tick frequency pandas closes every bin on the left when \<^verbatim>\<open>closed\<close> is not given:
  the bin with index \<open>k\<close> is \<open>[origin + k * c, origin + (k + 1) * c)\<close>.
\<close>

definition bin_of :: "int \<Rightarrow> int \<Rightarrow> int \<Rightarrow> int" where
  "bin_of origin c t = (t - origin) div c"

definition bin_label :: "label \<Rightarrow> int \<Rightarrow> int \<Rightarrow> int \<Rightarrow> int" where
  "bin_label lab origin c k =
     (case lab of Label_left \<Rightarrow> origin + k * c | Label_right \<Rightarrow> origin + (k + 1) * c)"

text \<open>The mean of a column skips nulls and is null when nothing is left.\<close>

definition column_mean :: "real option list \<Rightarrow> real option" where
  "column_mean cells =
     (let xs = List.map_filter (\<lambda>v. v) cells
      in if xs = [] then None else Some (sum_list xs / real (length xs)))"

definition cell :: "nat \<Rightarrow> real option list \<Rightarrow> real option" where
  "cell j vals = (if j < length vals then vals ! j else None)"

definition bin_means :: "nat \<Rightarrow> real option list list \<Rightarrow> real option list" where
  "bin_means n valss = map (\<lambda>j. column_mean (map (cell j) valss)) [0..<n]"

text \<open>
  The resampler on the pairs (index value, cells of the \<open>n\<close> numeric columns): every bin from
  the one of the earliest reading to the one of the latest is produced, empty ones with null
  means. An empty frame gives an empty result.
\<close>

definition resample_mean ::
  "label \<Rightarrow> int \<Rightarrow> nat \<Rightarrow> (int \<times> real option list) list \<Rightarrow> (int \<times> real option list) list" where
  "resample_mean lab c n rows =
     (case map fst rows of
        [] \<Rightarrow> []
      | t # ts \<Rightarrow>
          (let first = fold min ts t;
               last = fold max ts t;
               origin = start_day first
           in map (\<lambda>k. (bin_label lab origin c k,
                         bin_means n (map snd (filter (\<lambda>r. bin_of origin c (fst r) = k) rows))))
                  [bin_of origin c first .. bin_of origin c last]))"

section \<open>Per device aggregation (lines 162 to 196)\<close>

text \<open>\<^verbatim>\<open>Series.unique()\<close>: the distinct values in order of first appearance.\<close>

fun unique :: "'a list \<Rightarrow> 'a list" where
  "unique [] = []"
| "unique (x # xs) = x # unique (filter (\<lambda>y. y \<noteq> x) xs)"

text \<open>\<^verbatim>\<open>dropna(how="all", subset=numeric_columns)\<close> on rows whose cells are the numeric columns.\<close>

definition dropna_all :: "reading list \<Rightarrow> reading list" where
  "dropna_all rows = filter (\<lambda>r. list_ex (\<lambda>v. v \<noteq> None) (r_vals r)) rows"

definition aggregate_device :: "int \<Rightarrow> nat \<Rightarrow> reading list \<Rightarrow> string \<Rightarrow> reading list" where
  "aggregate_device c n filtered_df device_id =
     (let device_data = filter (\<lambda>r. r_dev r = device_id) filtered_df;
          device_resampled =
            map (\<lambda>(t, means). \<lparr>r_time = t, r_dev = device_id, r_vals = means\<rparr>)
                (resample_mean Label_right c n (map (\<lambda>r. (r_time r, r_vals r)) device_data))
      in dropna_all device_resampled)"

text \<open>
  \<^verbatim>\<open>sort_index()\<close> sorts by the index alone. pandas returns a frame whose index is already
  monotonic unchanged, as the stable sort used here does; the order pandas gives to equal
  index values after a real sort is not relied on by any statement below.
\<close>

definition sort_index :: "reading list \<Rightarrow> reading list" where
  "sort_index rows = sort_key r_time rows"

text \<open>
  The loop over \<^verbatim>\<open>filtered_df["dev-id"].unique()\<close>, \<^verbatim>\<open>pd.concat\<close> and \<^verbatim>\<open>sort_index\<close>.
  A device whose resampled frame is empty is not appended, and an empty list gives the empty
  frame: both are the empty list here.
\<close>

definition aggregate :: "int \<Rightarrow> nat \<Rightarrow> reading list \<Rightarrow> reading list" where
  "aggregate c n filtered_df =
     sort_index (concat (map (aggregate_device c n filtered_df) (unique (map r_dev filtered_df))))"

section \<open>Encoder, writer and the device pipeline (lines 198 to 237)\<close>

text \<open>
  The persisted frame: the categories of the \<^verbatim>\<open>dev-id\<close> column and the rows.
  \<^verbatim>\<open>astype(CategoricalDtype(categories))\<close> turns a value outside the categories into null.
\<close>

record artifact =
  art_categories :: "string list"
  art_rows :: "(int \<times> string option \<times> real option list) list"

definition encode :: "string set \<Rightarrow> reading list \<Rightarrow> artifact" where
  "encode valid rows =
     (let categories = sorted_list_of_set valid
      in \<lparr>art_categories = categories,
          art_rows = map (\<lambda>r. (r_time r,
                               if r_dev r \<in> set categories then Some (r_dev r) else None,
                               r_vals r)) rows\<rparr>)"

record run_result =
  returned :: "reading list"
  written :: "artifact option"
  run_log :: "log_event list"

definition save_aggregated_data ::
  "(string \<Rightarrow> datetime option) \<Rightarrow> dataframe \<Rightarrow> geodataframe \<Rightarrow> int \<Rightarrow> error + run_result" where
  "save_aggregated_data to_datetime df gdf c =
     (if \<not> df_has_dev_id df then Inl KeyError_dev_id
      else if \<not> gdf_has_id gdf then Inl KeyError_id
      else
        (let parsed = parse_install_dates to_datetime (df_index_tz df) (gdf_rows gdf);
             device_install_dates = fst parsed;
             valid = valid_device_ids gdf;
             original_count = length (df_rows df);
             filtered_df = device_filter valid (df_rows df)
         in if original_count = 0 then Inl ZeroDivisionError
            else if filtered_df = [] then Inl NoMatchingDevices
            else
              (case install_window_filter (df_index_tz df) device_install_dates filtered_df of
                 Inl e \<Rightarrow> Inl e
               | Inr windowed \<Rightarrow>
                   (let aggregated_df =
                          (if df_numeric_columns df = [] then windowed
                           else aggregate c (length (df_numeric_columns df)) windowed)
                    in Inr \<lparr>returned = aggregated_df,
                            written = (if aggregated_df \<noteq> []
                                       then Some (encode valid aggregated_df) else None),
                            run_log = snd parsed\<rparr>))))"

text \<open>What a run leaves at the output path: nothing when it raised.\<close>

definition output_artifact :: "error + run_result \<Rightarrow> artifact option" where
  "output_artifact res = (case res of Inl e \<Rightarrow> None | Inr r \<Rightarrow> written r)"

section \<open>Station pipeline (\<^verbatim>\<open>combine_fmi_data\<close>, lines 240 to 308)\<close>

text \<open>
  A weather station reading: the index value, the \<^verbatim>\<open>Station\<close> cell, the \<^verbatim>\<open>fmisid\<close> cell
  (\<open>None\<close> when null or when the frame has no such column) and the cells of the numeric
  columns other than \<^verbatim>\<open>fmisid\<close>. The frame records whether \<^verbatim>\<open>fmisid\<close> is absent, of a
  numeric dtype (then \<^verbatim>\<open>select_dtypes(include=["number"])\<close> puts it among
  \<^verbatim>\<open>numeric_columns\<close>) or of another dtype; the identifier itself is kept as an integer.
\<close>

datatype fmisid_dtype = Fmisid_absent | Fmisid_numeric | Fmisid_object

record station_reading =
  s_time :: int
  s_station :: string
  s_fmisid :: "int option"
  s_vals :: "real option list"

record station_bucket =
  b_time :: int
  b_station :: string
  b_fmisid :: "int option"
  b_vals :: "real option list"

definition stations_to_save :: "string list" where
  "stations_to_save =
     [''Helsinki Kaisaniemi'',
      ''Helsinki Kumpula'',
      ''Helsinki Malmi lentokentt'' @ [CHR 0xC3, CHR 0xA4],
      ''Helsinki Harmaja'',
      ''Vantaa Helsinki-Vantaan lentoasema'']"

text \<open>The instant 2024-05-01 00:00 UTC in nanoseconds.\<close>

definition epoch_2024_05_01 :: int where
  "epoch_2024_05_01 = 1714521600000000000"

text \<open>
  The body of the loop over \<^verbatim>\<open>df["Station"].unique()\<close>. The resampler is called without
  \<^verbatim>\<open>label\<close>, which pandas takes as the left edge for a tick frequency. The mean of a numeric
  \<^verbatim>\<open>fmisid\<close> column is overwritten at line 289 by the first cell of the station, so it is not
  computed here; \<^verbatim>\<open>dropna\<close> then looks at the overwritten column when \<^verbatim>\<open>fmisid\<close> is among
  \<^verbatim>\<open>numeric_columns\<close>. \<^verbatim>\<open>iloc[0]\<close> cannot fail: a station taken from \<^verbatim>\<open>unique()\<close> has a row.
\<close>

definition aggregate_station ::
  "fmisid_dtype \<Rightarrow> int \<Rightarrow> nat \<Rightarrow> station_reading list \<Rightarrow> string \<Rightarrow> station_bucket list" where
  "aggregate_station dt c n df station =
     (let station_data = filter (\<lambda>r. s_station r = station) df;
          fmisid = (case station_data of [] \<Rightarrow> None | r # rs \<Rightarrow> s_fmisid r);
          station_resampled =
            map (\<lambda>(t, means).
                   \<lparr>b_time = t, b_station = station,
                    b_fmisid = (if dt = Fmisid_absent then None else fmisid),
                    b_vals = means\<rparr>)
                (resample_mean Label_left c n (map (\<lambda>r. (s_time r, s_vals r)) station_data))
      in filter (\<lambda>b. list_ex (\<lambda>v. v \<noteq> None) (b_vals b) \<or>
                      (dt = Fmisid_numeric \<and> b_fmisid b \<noteq> None))
                station_resampled)"

record fmi_result =
  fmi_out :: "station_reading list"
  fmi_out_agg :: "station_bucket list"

text \<open>
  The input files are the lists of their rows, all with the schema \<open>dt\<close>, \<open>n\<close>;
  \<^verbatim>\<open>pd.concat\<close> of no frame at all raises a ValueError. Both outputs are always written.
\<close>

definition combine_fmi_data ::
  "fmisid_dtype \<Rightarrow> nat \<Rightarrow> station_reading list list \<Rightarrow> int \<Rightarrow> error + fmi_result" where
  "combine_fmi_data dt n fmi_in c =
     (if fmi_in = [] then Inl ValueError_no_objects
      else
        (let df0 = concat fmi_in;
             df1 = filter (\<lambda>r. epoch_2024_05_01 \<le> s_time r) df0;
             df = filter (\<lambda>r. s_station r \<in> set stations_to_save) df1;
             df_agg = sort_key b_time
                        (concat (map (aggregate_station dt c n df) (unique (map s_station df))))
         in Inr \<lparr>fmi_out = df, fmi_out_agg = df_agg\<rparr>))"

section \<open>The survival predicate of the window filter\<close>

text \<open>
  A row survives when its device has no cutoff or its timestamp is not before the cutoff of
  its own device; the loop above is compared with this predicate below.
\<close>

definition keep_row :: "(string \<times> datetime) list \<Rightarrow> reading \<Rightarrow> bool" where
  "keep_row cutoffs r =
     (case map_of cutoffs (r_dev r) of None \<Rightarrow> True | Some c \<Rightarrow> index_ge (r_time r) c)"

section \<open>Example inputs\<close>

text \<open>
  A small run used to instantiate the theorems: a parser that knows the dates 2024-01-02
  and 2262-04-11 (the last day that a pandas timestamp reaches), gives \<^verbatim>\<open>NaT\<close> for the empty
  string and raises otherwise; three devices (one with an install date, one with an
  unparseable one, one with none) and readings of two of them and of a device unknown to the
  metadata.
\<close>

definition example_to_datetime :: "string \<Rightarrow> datetime option" where
  "example_to_datetime s =
     (if s = ''2024-01-02'' then Some (Stamp \<lparr>ts_value = 1704153600000000000, ts_tz = None\<rparr>)
      else if s = ''2262-04-11'' then Some (Stamp \<lparr>ts_value = 9223286400000000000, ts_tz = None\<rparr>)
      else if s = [] then Some NaT
      else None)"

definition example_metadata :: "meta_row list" where
  "example_metadata =
     [\<lparr>m_id = ''X1'', Date_installed = Some ''2024-01-02'', Asennettu_pvm = None\<rparr>,
      \<lparr>m_id = ''X2'', Date_installed = None, Asennettu_pvm = Some ''soon''\<rparr>,
      \<lparr>m_id = ''X3'', Date_installed = None, Asennettu_pvm = None\<rparr>]"

definition example_readings :: "reading list" where
  "example_readings =
     [\<lparr>r_time = 1704067800000000000, r_dev = ''X1'', r_vals = [Some 80, Some 10]\<rparr>,
      \<lparr>r_time = 1704067800000000000, r_dev = ''X2'', r_vals = [Some 70, Some 5]\<rparr>,
      \<lparr>r_time = 1704240600000000000, r_dev = ''X1'', r_vals = [Some 60, Some 10]\<rparr>,
      \<lparr>r_time = 1704242400000000000, r_dev = ''X1'', r_vals = [None, Some 20]\<rparr>,
      \<lparr>r_time = 1704240600000000000, r_dev = ''X9'', r_vals = [Some 50, Some 0]\<rparr>]"

definition example_df :: dataframe where
  "example_df = \<lparr>df_has_dev_id = True, df_index_tz = Some ''UTC'',
     df_numeric_columns = [''humidity'', ''temperature''], df_rows = example_readings\<rparr>"

definition example_gdf :: geodataframe where
  "example_gdf = \<lparr>gdf_has_id = True, gdf_rows = example_metadata\<rparr>"

text \<open>
  Metadata whose first device has the empty string as install date, and metadata whose only
  device was installed on 2262-04-11.
\<close>

definition empty_date_gdf :: geodataframe where
  "empty_date_gdf =
     \<lparr>gdf_has_id = True,
      gdf_rows = [\<lparr>m_id = ''X1'', Date_installed = Some [], Asennettu_pvm = None\<rparr>,
                  \<lparr>m_id = ''X2'', Date_installed = None, Asennettu_pvm = None\<rparr>]\<rparr>"

definition late_date_metadata :: "meta_row list" where
  "late_date_metadata =
     [\<lparr>m_id = ''X1'', Date_installed = Some ''2262-04-11'', Asennettu_pvm = None\<rparr>]"

text \<open>One device with a reading at midnight and a reading one hour later.\<close>

definition boundary_readings :: "reading list" where
  "boundary_readings =
     [\<lparr>r_time = 0, r_dev = ''X1'', r_vals = [Some 10]\<rparr>,
      \<lparr>r_time = 3600000000000, r_dev = ''X1'', r_vals = [Some 20]\<rparr>]"

text \<open>Two devices with one reading each at the same time, \<open>B\<close> before \<open>A\<close>.\<close>

definition tied_readings :: "reading list" where
  "tied_readings =
     [\<lparr>r_time = 600000000000, r_dev = ''B'', r_vals = [Some 10]\<rparr>,
      \<lparr>r_time = 600000000000, r_dev = ''A'', r_vals = [Some 20]\<rparr>]"

text \<open>The result of the pipeline on the example inputs at a cadence of one hour.\<close>

definition example_artifact :: artifact where
  "example_artifact =
     \<lparr>art_categories = [''X1'', ''X2'', ''X3''],
      art_rows = [(1704070800000000000, Some ''X2'', [Some 70, Some 5]),
                  (1704243600000000000, Some ''X1'', [Some 60, Some 15])]\<rparr>"

definition example_result :: run_result where
  "example_result =
     \<lparr>returned = [\<lparr>r_time = 1704070800000000000, r_dev = ''X2'', r_vals = [Some 70, Some 5]\<rparr>,
                  \<lparr>r_time = 1704243600000000000, r_dev = ''X1'', r_vals = [Some 60, Some 15]\<rparr>],
      written = Some example_artifact,
      run_log = [Cutoff_logged ''X1'' \<lparr>ts_value = 1704240000000000000, ts_tz = Some ''UTC''\<rparr>,
                 Parse_error_logged ''X2'' ''soon'',
                 No_install_date_logged ''X3'']\<rparr>"

text \<open>
  Readings of one allowed station on 2024-06-01: at 00:10 and 00:40 in a frame without
  \<^verbatim>\<open>fmisid\<close>, and at 00:10 and 02:10 with the identifier 101004.
\<close>

definition kumpula_same_hour :: "station_reading list" where
  "kumpula_same_hour =
     [\<lparr>s_time = 1717200600000000000, s_station = ''Helsinki Kumpula'', s_fmisid = None,
       s_vals = [Some 10]\<rparr>,
      \<lparr>s_time = 1717202400000000000, s_station = ''Helsinki Kumpula'', s_fmisid = None,
       s_vals = [Some 20]\<rparr>]"

definition kumpula_with_gap :: "station_reading list" where
  "kumpula_with_gap =
     [\<lparr>s_time = 1717200600000000000, s_station = ''Helsinki Kumpula'', s_fmisid = Some 101004,
       s_vals = [Some 10]\<rparr>,
      \<lparr>s_time = 1717207800000000000, s_station = ''Helsinki Kumpula'', s_fmisid = Some 101004,
       s_vals = [Some 20]\<rparr>]"

section \<open>Lemmas on the installation dates and the window filter\<close>

lemma fst_register_row:
  "fst (register_row p tz st row) =
     (case stored_cutoff p tz row of
        None \<Rightarrow> fst st
      | Some c \<Rightarrow> AList.update (m_id row) c (fst st))"
  by (simp add: register_row_def stored_cutoff_def Let_def split: option.splits datetime.splits)

lemma map_of_register_row:
  "map_of (fst (register_row p tz st row)) =
     (case stored_cutoff p tz row of
        None \<Rightarrow> map_of (fst st)
      | Some c \<Rightarrow> (map_of (fst st))(m_id row \<mapsto> c))"
  by (simp add: fst_register_row update_conv' split: option.splits)

lemma map_of_registered_other:
  "d \<notin> m_id ` set rows \<Longrightarrow>
   map_of (fst (foldl (register_row p tz) st rows)) d = map_of (fst st) d"
proof (induction rows arbitrary: st)
  case Nil
  then show ?case by simp
next
  case (Cons row rows)
  then have "map_of (fst (register_row p tz st row)) d = map_of (fst st) d"
    by (simp add: map_of_register_row split: option.splits)
  with Cons show ?case by simp
qed

lemma map_of_registered_distinct:
  "distinct (map m_id rows) \<Longrightarrow> row \<in> set rows \<Longrightarrow>
   map_of (fst (foldl (register_row p tz) st rows)) (m_id row) =
     map_of (fst (register_row p tz st row)) (m_id row)"
proof (induction rows arbitrary: st)
  case Nil
  then show ?case by simp
next
  case (Cons a rows)
  show ?case
  proof (cases "row = a")
    case True
    with Cons.prems have "m_id row \<notin> m_id ` set rows" by auto
    with True show ?thesis by (simp add: map_of_registered_other)
  next
    case False
    with Cons.prems have mem: "row \<in> set rows" and ne: "m_id a \<noteq> m_id row" by auto
    have "map_of (fst (foldl (register_row p tz) (register_row p tz st a) rows)) (m_id row)
            = map_of (fst (register_row p tz (register_row p tz st a) row)) (m_id row)"
      using Cons.IH [OF _ mem] Cons.prems(1) by simp
    also have "\<dots> = map_of (fst (register_row p tz st row)) (m_id row)"
      using ne by (simp add: map_of_register_row split: option.splits)
    finally show ?thesis by simp
  qed
qed

lemma distinct_register_row:
  "distinct (map fst (fst st)) \<Longrightarrow> distinct (map fst (fst (register_row p tz st row)))"
  by (simp add: fst_register_row distinct_update split: option.splits)

lemma distinct_registered:
  "distinct (map fst (fst st)) \<Longrightarrow>
   distinct (map fst (fst (foldl (register_row p tz) st rows)))"
  by (induction rows arbitrary: st) (simp_all add: distinct_register_row)

lemma distinct_parse_install_dates:
  "distinct (map fst (fst (parse_install_dates p tz rows)))"
  by (simp add: parse_install_dates_def distinct_registered)

lemma set_update_subset: "set (AList.update k v al) \<subseteq> insert (k, v) (set al)"
  by (induction al) auto

lemma stored_cutoff_comparable:
  "stored_cutoff p (Some z) row = Some c \<Longrightarrow> comparable (Some z) c"
  by (auto simp: stored_cutoff_def comparable_def normalize_cutoff_def tz_localize_utc_def
        tz_convert_def split: option.splits datetime.splits if_splits)

lemma registered_comparable:
  assumes "\<forall>kv \<in> set (fst st). comparable (Some z) (snd kv)"
  shows "\<forall>kv \<in> set (fst (foldl (register_row p (Some z)) st rows)). comparable (Some z) (snd kv)"
  using assms
proof (induction rows arbitrary: st)
  case Nil
  then show ?case by simp
next
  case (Cons row rows)
  have "\<forall>kv \<in> set (fst (register_row p (Some z) st row)). comparable (Some z) (snd kv)"
  proof (cases "stored_cutoff p (Some z) row")
    case None
    with Cons.prems show ?thesis by (simp add: fst_register_row)
  next
    case (Some c)
    from stored_cutoff_comparable [OF Some] Cons.prems
    show ?thesis
      using set_update_subset [of "m_id row" c "fst st"]
      by (auto simp: fst_register_row Some)
  qed
  from Cons.IH [OF this] show ?case by simp
qed

lemma log_register_row_mono: "set (snd st) \<subseteq> set (snd (register_row p tz st a))"
  by (auto simp: register_row_def Let_def split: option.splits datetime.splits)

lemma log_register_row_error:
  "install_date row = Some s \<Longrightarrow> p s = None \<Longrightarrow>
   Parse_error_logged (m_id row) s \<in> set (snd (register_row p tz st row))"
  by (simp add: register_row_def)

lemma registered_log:
  "row \<in> set rows \<Longrightarrow> install_date row = Some s \<Longrightarrow> p s = None \<Longrightarrow>
   Parse_error_logged (m_id row) s \<in> set (snd (foldl (register_row p tz) st rows))"
proof (induction rows arbitrary: st rule: rev_induct)
  case Nil
  then show ?case by simp
next
  case (snoc a rows)
  show ?case
  proof (cases "row = a")
    case True
    with snoc.prems show ?thesis by (simp add: log_register_row_error)
  next
    case False
    with snoc have "Parse_error_logged (m_id row) s \<in> set (snd (foldl (register_row p tz) st rows))"
      by simp
    then show ?thesis
      using log_register_row_mono [of "foldl (register_row p tz) st rows" p tz a] by auto
  qed
qed

lemma install_window_filter_char:
  "distinct (map fst cutoffs) \<Longrightarrow>
   install_window_filter tz cutoffs rows =
     (if \<forall>kv \<in> set cutoffs. comparable tz (snd kv)
      then Inr (filter (keep_row cutoffs) rows) else Inl TypeError_tz_compare)"
proof (induction cutoffs arbitrary: rows)
  case Nil
  then show ?case by (simp add: keep_row_def)
next
  case (Cons kv cutoffs)
  obtain d c where kv: "kv = (d, c)" by (cases kv)
  from Cons.prems kv have none: "map_of cutoffs d = None" and dist: "distinct (map fst cutoffs)"
    by (auto simp: map_of_eq_None_iff)
  have "filter (keep_row cutoffs) (filter (\<lambda>r. r_dev r \<noteq> d \<or> index_ge (r_time r) c) rows)
          = filter (keep_row ((d, c) # cutoffs)) rows"
    unfolding filter_filter using none
    by (intro filter_cong refl) (auto simp: keep_row_def)
  with Cons.IH [OF dist] kv show ?case by simp
qed

lemma map_of_parse_install_dates:
  assumes "distinct (map m_id metas)" and "row \<in> set metas"
  shows "map_of (fst (parse_install_dates p tz metas)) (m_id row) = stored_cutoff p tz row"
  unfolding parse_install_dates_def map_of_registered_distinct [OF assms]
  by (simp add: map_of_register_row split: option.splits)

lemma register_unparseable:
  "install_date row = Some s \<Longrightarrow> p s = None \<Longrightarrow>
   fst (register_row p tz st row) = fst st"
  by (simp add: register_row_def)

lemma fst_foldl_register_cong:
  "fst st = fst st' \<Longrightarrow>
   fst (foldl (register_row p tz) st rows) = fst (foldl (register_row p tz) st' rows)"
proof (induction rows arbitrary: st st')
  case Nil
  then show ?case by simp
next
  case (Cons a rows)
  have "fst (register_row p tz st a) = fst (register_row p tz st' a)"
    using Cons.prems by (simp add: fst_register_row split: option.splits)
  from Cons.IH [OF this] show ?case by simp
qed

lemma parse_install_dates_skip:
  assumes "install_date row = Some s" and "p s = None"
  shows "fst (parse_install_dates p tz (before @ row # after)) =
         fst (parse_install_dates p tz (before @ after))"
  unfolding parse_install_dates_def foldl_append foldl_Cons
  by (rule fst_foldl_register_cong) (simp add: register_unparseable [where p = p, OF assms])

section \<open>Lemmas on the resampler and the per device aggregation\<close>

lemma div_eq_iff_interval:
  fixes a c k :: int
  assumes "0 < c"
  shows "(a div c = k) = (k * c \<le> a \<and> a < (k + 1) * c)"
proof
  assume "a div c = k"
  then have "a = k * c + a mod c" by (metis div_mult_mod_eq)
  moreover have "0 \<le> a mod c" "a mod c < c" using assms by simp_all
  ultimately show "k * c \<le> a \<and> a < (k + 1) * c" by (simp add: algebra_simps)
next
  assume h: "k * c \<le> a \<and> a < (k + 1) * c"
  have "a = c * k + (a - k * c)" by simp
  moreover have "0 \<le> a - k * c" "a - k * c < c" using h by (simp_all add: algebra_simps)
  ultimately show "a div c = k" by (metis int_div_pos_eq)
qed

lemma start_day_le: "start_day t \<le> t"
  unfolding start_day_def day_ns_def
  by (metis (no_types) mult.commute zero_less_numeral div_mult_mod_eq
      pos_mod_sign le_add_same_cancel1)

lemma dvd_start_day: "c dvd day_ns \<Longrightarrow> c dvd start_day t"
  by (simp add: start_day_def)

lemma resample_mean_nonempty:
  assumes "rows \<noteq> []"
  shows "resample_mean lab c n rows =
    (let first = Min (fst ` set rows); last = Max (fst ` set rows); origin = start_day first
     in map (\<lambda>k. (bin_label lab origin c k,
                   bin_means n (map snd (filter (\<lambda>r. bin_of origin c (fst r) = k) rows))))
            [bin_of origin c first .. bin_of origin c last])"
proof (cases rows)
  case Nil
  with assms show ?thesis by simp
next
  case (Cons r rs)
  have "fold min (map fst rs) (fst r) = Min (fst ` set (r # rs))"
       "fold max (map fst rs) (fst r) = Max (fst ` set (r # rs))"
    using Min.set_eq_fold [of "fst r" "map fst rs"] Max.set_eq_fold [of "fst r" "map fst rs"]
    by simp_all
  then show ?thesis
    unfolding Cons resample_mean_def by (simp add: Let_def)
qed

lemma bin_filter_interval:
  assumes "0 < c"
  shows "filter (\<lambda>r. bin_of origin c (fst r) = k) rows =
         filter (\<lambda>r. origin + k * c \<le> fst r \<and> fst r < origin + (k + 1) * c) rows"
  by (intro filter_cong refl) (auto simp: bin_of_def div_eq_iff_interval [OF assms])

lemma resample_mean_bucket:
  assumes "0 < c" and "(t, means) \<in> set (resample_mean lab c n rows)"
  shows "\<exists>k. t = bin_label lab (start_day (Min (fst ` set rows))) c k
             \<and> means = bin_means n (map snd (filter
                 (\<lambda>r. start_day (Min (fst ` set rows)) + k * c \<le> fst r
                     \<and> fst r < start_day (Min (fst ` set rows)) + (k + 1) * c) rows))"
proof -
  from assms(2) have ne: "rows \<noteq> []" by (auto simp: resample_mean_def)
  from assms(2) show ?thesis
    unfolding resample_mean_nonempty [OF ne] Let_def bin_filter_interval [OF assms(1)]
    by auto
qed

lemma resample_mean_covers:
  assumes "0 < c" and "r \<in> set rows"
  shows "(bin_label lab (start_day (Min (fst ` set rows))) c
            (bin_of (start_day (Min (fst ` set rows))) c (fst r)),
          bin_means n (map snd (filter
             (\<lambda>r'. bin_of (start_day (Min (fst ` set rows))) c (fst r') =
                    bin_of (start_day (Min (fst ` set rows))) c (fst r)) rows)))
         \<in> set (resample_mean lab c n rows)"
proof -
  from assms(2) have ne: "rows \<noteq> []" by auto
  let ?o = "start_day (Min (fst ` set rows))"
  have "Min (fst ` set rows) \<le> fst r" "fst r \<le> Max (fst ` set rows)"
    using assms(2) by simp_all
  then have "bin_of ?o c (Min (fst ` set rows)) \<le> bin_of ?o c (fst r)"
            "bin_of ?o c (fst r) \<le> bin_of ?o c (Max (fst ` set rows))"
    unfolding bin_of_def using assms(1) by (simp_all add: zdiv_mono1)
  then show ?thesis
    unfolding resample_mean_nonempty [OF ne] Let_def by (auto simp: image_iff)
qed

lemma column_mean_eq_None: "(column_mean cells = None) = (\<forall>v \<in> set cells. v = None)"
proof -
  have "(List.map_filter (\<lambda>v. v) cells = []) = (\<forall>v \<in> set cells. v = None)"
    by (induction cells) (auto simp: List.map_filter_simps split: option.splits)
  then show ?thesis by (simp add: column_mean_def Let_def)
qed

lemma bin_means_has_value:
  assumes "vals \<in> set valss" and "j < n" and "cell j vals \<noteq> None"
  shows "list_ex (\<lambda>v. v \<noteq> None) (bin_means n valss)"
proof -
  have "column_mean (map (cell j) valss) \<noteq> None"
    using assms(1,3) by (auto simp: column_mean_eq_None)
  moreover have "column_mean (map (cell j) valss) \<in> set (bin_means n valss)"
    using assms(2) by (auto simp: bin_means_def)
  ultimately show ?thesis by (auto simp: list_ex_iff)
qed

lemma aggregate_deviceD:
  assumes "b \<in> set (aggregate_device c n filtered d)"
  shows "r_dev b = d \<and> list_ex (\<lambda>v. v \<noteq> None) (r_vals b) \<and>
      (r_time b, r_vals b) \<in> set (resample_mean Label_right c n
          (map (\<lambda>r. (r_time r, r_vals r)) (filter (\<lambda>r. r_dev r = d) filtered)))"
proof -
  let ?R = "resample_mean Label_right c n
          (map (\<lambda>r. (r_time r, r_vals r)) (filter (\<lambda>r. r_dev r = d) filtered))"
  from assms have ex: "list_ex (\<lambda>v. v \<noteq> None) (r_vals b)"
    and "b \<in> (\<lambda>(t, means). \<lparr>r_time = t, r_dev = d, r_vals = means\<rparr>) ` set ?R"
    unfolding aggregate_device_def dropna_all_def Let_def by simp_all
  then obtain p where p: "p \<in> set ?R"
    and b: "b = (case p of (t, means) \<Rightarrow> \<lparr>r_time = t, r_dev = d, r_vals = means\<rparr>)"
    by blast
  obtain t ms where "p = (t, ms)" by (cases p)
  with p b ex show ?thesis by simp
qed

lemma aggregate_deviceI:
  assumes "(t, ms) \<in> set (resample_mean Label_right c n
          (map (\<lambda>r. (r_time r, r_vals r)) (filter (\<lambda>r. r_dev r = d) filtered)))"
    and "list_ex (\<lambda>v. v \<noteq> None) ms"
  shows "\<lparr>r_time = t, r_dev = d, r_vals = ms\<rparr> \<in> set (aggregate_device c n filtered d)"
proof -
  let ?R = "resample_mean Label_right c n
          (map (\<lambda>r. (r_time r, r_vals r)) (filter (\<lambda>r. r_dev r = d) filtered))"
  have "\<lparr>r_time = t, r_dev = d, r_vals = ms\<rparr>
          \<in> (\<lambda>(t, means). \<lparr>r_time = t, r_dev = d, r_vals = means\<rparr>) ` set ?R"
    using assms(1) by (rule rev_image_eqI) simp
  with assms(2) show ?thesis
    unfolding aggregate_device_def dropna_all_def Let_def by simp
qed

lemma device_times:
  "fst ` set (map (\<lambda>r. (r_time r, r_vals r)) (filter (\<lambda>r. r_dev r = d) filtered)) =
   r_time ` {r \<in> set filtered. r_dev r = d}"
  by (simp add: image_image)

lemma aggregate_device_bucket:
  assumes "0 < c" and "b \<in> set (aggregate_device c n filtered d)"
  shows "r_vals b = bin_means n (map r_vals (filter
            (\<lambda>r. r_dev r = d \<and> r_time b - c \<le> r_time r \<and> r_time r < r_time b) filtered))"
    and "\<exists>r0 \<in> set filtered. r_dev r0 = d
            \<and> (\<forall>r \<in> set filtered. r_dev r = d \<longrightarrow> r_time r0 \<le> r_time r)
            \<and> c dvd (r_time b - start_day (r_time r0))"
proof -
  let ?pairs = "map (\<lambda>r. (r_time r, r_vals r)) (filter (\<lambda>r. r_dev r = d) filtered)"
  let ?T = "r_time ` {r \<in> set filtered. r_dev r = d}"
  let ?o = "start_day (Min ?T)"
  from aggregate_deviceD [OF assms(2)]
  have mem: "(r_time b, r_vals b) \<in> set (resample_mean Label_right c n ?pairs)" by simp
  from resample_mean_bucket [OF assms(1) mem] obtain k where
    t: "r_time b = bin_label Label_right ?o c k" and
    ms: "r_vals b = bin_means n (map snd (filter
           (\<lambda>p. ?o + k * c \<le> fst p \<and> fst p < ?o + (k + 1) * c) ?pairs))"
    unfolding device_times by blast
  have e1: "?o + k * c = r_time b - c" and e2: "?o + (k + 1) * c = r_time b"
    using t by (simp_all add: bin_label_def algebra_simps)
  have "map snd (filter (\<lambda>p. r_time b - c \<le> fst p \<and> fst p < r_time b) ?pairs) =
        map r_vals (filter
            (\<lambda>r. r_dev r = d \<and> r_time b - c \<le> r_time r \<and> r_time r < r_time b) filtered)"
    by (simp add: filter_map comp_def conj_commute conj_left_commute)
  with ms show "r_vals b = bin_means n (map r_vals (filter
            (\<lambda>r. r_dev r = d \<and> r_time b - c \<le> r_time r \<and> r_time r < r_time b) filtered))"
    unfolding e1 e2 by simp
  from mem have "?pairs \<noteq> []" by (auto simp: resample_mean_def)
  then have ne: "?T \<noteq> {}" by (auto simp: filter_empty_conv)
  have fin: "finite ?T" by simp
  from Min_in [OF fin ne] obtain r0 where r0: "r0 \<in> set filtered" "r_dev r0 = d"
    "r_time r0 = Min ?T" by (smt (verit) image_iff mem_Collect_eq)
  have least: "\<forall>r \<in> set filtered. r_dev r = d \<longrightarrow> r_time r0 \<le> r_time r"
    unfolding r0(3) using fin by (auto intro!: Min_le)
  have "r_time b - start_day (r_time r0) = (k + 1) * c"
    unfolding r0(3) using e2 by simp
  then have "c dvd (r_time b - start_day (r_time r0))" by simp
  with r0 least show "\<exists>r0 \<in> set filtered. r_dev r0 = d
            \<and> (\<forall>r \<in> set filtered. r_dev r = d \<longrightarrow> r_time r0 \<le> r_time r)
            \<and> c dvd (r_time b - start_day (r_time r0))" by blast
qed

lemma aggregate_device_covers:
  assumes "0 < c" and "r \<in> set filtered" and "r_dev r = d"
    and "j < n" and "cell j (r_vals r) \<noteq> None"
  shows "\<exists>b \<in> set (aggregate_device c n filtered d).
           r_time b - c \<le> r_time r \<and> r_time r < r_time b"
proof -
  let ?pairs = "map (\<lambda>r. (r_time r, r_vals r)) (filter (\<lambda>r. r_dev r = d) filtered)"
  let ?o = "start_day (Min (fst ` set ?pairs))"
  let ?k = "bin_of ?o c (r_time r)"
  let ?ms = "bin_means n (map snd (filter (\<lambda>p. bin_of ?o c (fst p) = ?k) ?pairs))"
  let ?t = "bin_label Label_right ?o c ?k"
  have p: "(r_time r, r_vals r) \<in> set ?pairs"
    using assms(2,3) by (simp add: image_iff) blast
  from resample_mean_covers [OF assms(1) p, of Label_right n]
  have mem: "(?t, ?ms) \<in> set (resample_mean Label_right c n ?pairs)" by simp
  have "r_vals r \<in> set (map snd (filter (\<lambda>p. bin_of ?o c (fst p) = ?k) ?pairs))"
    using p by (simp add: image_iff) force
  from bin_means_has_value [OF this assms(4,5)]
  have ex: "list_ex (\<lambda>v. v \<noteq> None) ?ms" .
  from aggregate_deviceI [OF mem ex]
  have b: "\<lparr>r_time = ?t, r_dev = d, r_vals = ?ms\<rparr> \<in> set (aggregate_device c n filtered d)" .
  from div_eq_iff_interval [OF assms(1), of "r_time r - ?o" ?k]
  have "?k * c \<le> r_time r - ?o" "r_time r - ?o < (?k + 1) * c"
    by (simp_all add: bin_of_def)
  then have "?t - c \<le> r_time r" "r_time r < ?t"
    by (simp_all add: bin_label_def algebra_simps)
  with b show ?thesis by (intro bexI [OF _ b]) simp
qed

section \<open>Lemmas on the aggregated rows and on a successful run\<close>

lemma set_unique: "set (unique xs) = set xs"
proof (induction xs rule: unique.induct)
  case 1
  then show ?case by simp
next
  case (2 x xs)
  then show ?case by auto
qed

lemma aggregate_devices:
  "b \<in> set (aggregate c n filtered) \<Longrightarrow> r_dev b \<in> r_dev ` set filtered"
proof -
  assume "b \<in> set (aggregate c n filtered)"
  then obtain d where d: "d \<in> set (unique (map r_dev filtered))"
    and b: "b \<in> set (aggregate_device c n filtered d)"
    unfolding aggregate_def sort_index_def by auto
  from aggregate_deviceD [OF b] have "r_dev b = d" by simp
  with d show ?thesis by (simp add: set_unique)
qed

lemma install_window_filter_subset:
  "install_window_filter tz cutoffs rows = Inr out \<Longrightarrow> set out \<subseteq> set rows"
proof (induction cutoffs arbitrary: rows)
  case Nil
  then show ?case by simp
next
  case (Cons kv cutoffs)
  obtain d c where kv: "kv = (d, c)" by (cases kv)
  from Cons.prems kv have
    "install_window_filter tz cutoffs
       (filter (\<lambda>r. r_dev r \<noteq> d \<or> index_ge (r_time r) c) rows) = Inr out"
    by (simp split: if_splits)
  from Cons.IH [OF this] show ?case by auto
qed

lemma save_aggregated_data_InrD:
  assumes "save_aggregated_data to_datetime df gdf c = Inr res"
  shows "\<exists>windowed.
           install_window_filter (df_index_tz df)
             (fst (parse_install_dates to_datetime (df_index_tz df) (gdf_rows gdf)))
             (device_filter (valid_device_ids gdf) (df_rows df)) = Inr windowed
         \<and> returned res = (if df_numeric_columns df = [] then windowed
                            else aggregate c (length (df_numeric_columns df)) windowed)
         \<and> written res = (if returned res \<noteq> []
                           then Some (encode (valid_device_ids gdf) (returned res)) else None)"
proof -
  let ?w = "install_window_filter (df_index_tz df)
             (fst (parse_install_dates to_datetime (df_index_tz df) (gdf_rows gdf)))
             (device_filter (valid_device_ids gdf) (df_rows df))"
  show ?thesis
  proof (cases ?w)
    case (Inl e)
    with assms show ?thesis
      by (simp add: save_aggregated_data_def Let_def split: if_splits)
  next
    case (Inr windowed)
    with assms have "res = \<lparr>returned = (if df_numeric_columns df = [] then windowed
                            else aggregate c (length (df_numeric_columns df)) windowed),
          written = (if (if df_numeric_columns df = [] then windowed
                            else aggregate c (length (df_numeric_columns df)) windowed) \<noteq> []
                     then Some (encode (valid_device_ids gdf)
                        (if df_numeric_columns df = [] then windowed
                            else aggregate c (length (df_numeric_columns df)) windowed))
                     else None),
          run_log = snd (parse_install_dates to_datetime (df_index_tz df) (gdf_rows gdf))\<rparr>"
      by (simp add: save_aggregated_data_def Let_def split: if_splits)
    then have "returned res = (if df_numeric_columns df = [] then windowed
                            else aggregate c (length (df_numeric_columns df)) windowed)"
      and "written res = (if returned res \<noteq> []
                           then Some (encode (valid_device_ids gdf) (returned res)) else None)"
      by simp_all
    with Inr show ?thesis by blast
  qed
qed

lemma returned_devices_valid:
  assumes "save_aggregated_data to_datetime df gdf c = Inr res" and "r \<in> set (returned res)"
  shows "r_dev r \<in> valid_device_ids gdf"
proof -
  from save_aggregated_data_InrD [OF assms(1)] obtain windowed where
    w: "install_window_filter (df_index_tz df)
             (fst (parse_install_dates to_datetime (df_index_tz df) (gdf_rows gdf)))
             (device_filter (valid_device_ids gdf) (df_rows df)) = Inr windowed"
    and ret: "returned res = (if df_numeric_columns df = [] then windowed
                            else aggregate c (length (df_numeric_columns df)) windowed)"
    by blast
  from install_window_filter_subset [OF w]
  have sub: "r_dev ` set windowed \<subseteq> valid_device_ids gdf"
    by (auto simp: device_filter_def)
  show ?thesis
  proof (cases "df_numeric_columns df = []")
    case True
    with ret assms(2) sub show ?thesis by auto
  next
    case False
    with ret assms(2) have "r \<in> set (aggregate c (length (df_numeric_columns df)) windowed)"
      by simp
    from aggregate_devices [OF this] sub show ?thesis by blast
  qed
qed

section \<open>Buckets of the device pipeline\<close>

text \<open>
  Claim C1, as the code has it. In the device pipeline a bucket labeled \<open>t\<close> at cadence \<open>c\<close>
  carries the device of its partition and summarizes exactly the readings of that device in
  the interval \<open>[t - c, t)\<close>, closed on the left and open on the right. Labels lie on the
  cadence grid anchored at the midnight of the device's earliest reading, hence on multiples
  of the cadence when it divides a day. Every reading with a non null metric is in the bucket
  whose label is the first grid point strictly after its time, so a reading on a grid point
  belongs to the bucket labeled one cadence later.
\<close>

theorem bucket_covers_left_closed_interval:
  assumes "0 < c"
  shows "(\<forall>b \<in> set (aggregate_device c n filtered d).
            r_dev b = d
          \<and> r_vals b = bin_means n (map r_vals (filter
                (\<lambda>r. r_dev r = d \<and> r_time b - c \<le> r_time r \<and> r_time r < r_time b) filtered))
          \<and> (\<exists>r0 \<in> set filtered. r_dev r0 = d
                \<and> (\<forall>r \<in> set filtered. r_dev r = d \<longrightarrow> r_time r0 \<le> r_time r)
                \<and> c dvd (r_time b - start_day (r_time r0)))
          \<and> (c dvd day_ns \<longrightarrow> c dvd r_time b))
       \<and> (\<forall>r \<in> set filtered. r_dev r = d \<and> (\<exists>j < n. cell j (r_vals r) \<noteq> None) \<longrightarrow>
            (\<exists>b \<in> set (aggregate_device c n filtered d).
               r_time b - c \<le> r_time r \<and> r_time r < r_time b))"
proof (intro conjI ballI impI)
  fix b assume b: "b \<in> set (aggregate_device c n filtered d)"
  from aggregate_deviceD [OF b] show "r_dev b = d" by simp
  from aggregate_device_bucket(1) [OF assms b]
  show "r_vals b = bin_means n (map r_vals (filter
                (\<lambda>r. r_dev r = d \<and> r_time b - c \<le> r_time r \<and> r_time r < r_time b) filtered))" .
  from aggregate_device_bucket(2) [OF assms b]
  show al: "\<exists>r0 \<in> set filtered. r_dev r0 = d
                \<and> (\<forall>r \<in> set filtered. r_dev r = d \<longrightarrow> r_time r0 \<le> r_time r)
                \<and> c dvd (r_time b - start_day (r_time r0))" .
  assume day: "c dvd day_ns"
  from al obtain r0 :: reading where "c dvd (r_time b - start_day (r_time r0))" by blast
  moreover have "c dvd start_day (r_time r0)" using day by (rule dvd_start_day)
  ultimately have "c dvd (r_time b - start_day (r_time r0) + start_day (r_time r0))"
    by (rule dvd_add)
  then show "c dvd r_time b" by simp
next
  fix r assume r: "r \<in> set filtered"
    and h: "r_dev r = d \<and> (\<exists>j < n. cell j (r_vals r) \<noteq> None)"
  then obtain j where "j < n" "cell j (r_vals r) \<noteq> None" by blast
  from aggregate_device_covers [OF assms r _ this] h
  show "\<exists>b \<in> set (aggregate_device c n filtered d).
               r_time b - c \<le> r_time r \<and> r_time r < r_time b" by blast
qed

theorem bucket_covers_left_closed_interval_witness:
  "(0::int) < 3600000000000
   \<and> (\<exists>b \<in> set (aggregate_device 3600000000000 1 boundary_readings ''X1'').
         r_time b - 3600000000000 \<le> 3600000000000 \<and> 3600000000000 < r_time b)"
proof -
  have c: "(0::int) < 3600000000000" by simp
  let ?r = "\<lparr>r_time = 3600000000000, r_dev = ''X1'', r_vals = [Some 20]\<rparr>"
  have r: "?r \<in> set boundary_readings" by (simp add: boundary_readings_def)
  have h: "r_dev ?r = ''X1'' \<and> (\<exists>j < 1. cell j (r_vals ?r) \<noteq> None)"
    by (simp add: cell_def)
  from bucket_covers_left_closed_interval [OF c, of 1 boundary_readings "''X1''"]
  have "\<forall>r \<in> set boundary_readings.
          r_dev r = ''X1'' \<and> (\<exists>j < 1. cell j (r_vals r) \<noteq> None) \<longrightarrow>
            (\<exists>b \<in> set (aggregate_device 3600000000000 1 boundary_readings ''X1'').
               r_time b - 3600000000000 \<le> r_time r \<and> r_time r < r_time b)"
    by (rule conjunct2)
  from bspec [OF this r] h c show ?thesis by simp
qed

text \<open>
  Claim C1 as stated has the interval \<open>(t - c, t]\<close> and puts a reading on a cadence boundary
  into the bucket labeled with that boundary. With readings at 00:00 (value 10) and 01:00
  (value 20) and a cadence of one hour, the bucket labeled 01:00 would then average the
  reading of 01:00 alone. The code puts the reading of 00:00 into the bucket labeled 01:00 and
  the reading of 01:00 into the bucket labeled 02:00.
\<close>

theorem boundary_reading_in_next_bucket_counterexample:
  "aggregate 3600000000000 1 boundary_readings =
     [\<lparr>r_time = 3600000000000, r_dev = ''X1'', r_vals = [Some 10]\<rparr>,
      \<lparr>r_time = 7200000000000, r_dev = ''X1'', r_vals = [Some 20]\<rparr>]"
  by code_simp

section \<open>The installation window filter\<close>

text \<open>
  Claim C2. The installation window filter keeps a device filtered row if and only if its
  device has no cutoff or the timestamp of the row is not before the cutoff of that device
  (which no timestamp is when the cutoff is \<^verbatim>\<open>NaT\<close>), and it does so per device: the rows of
  a device \<open>B\<close> that survive are the rows of \<open>B\<close> that pass the cutoff of \<open>B\<close> alone, whatever
  the cutoffs of the other devices are, although the loop makes one pass over the whole data
  set per device with a cutoff. The only other outcome is the TypeError of comparing a naive
  index with an aware cutoff.
\<close>

theorem window_filter_own_cutoff:
  assumes "cutoffs = fst (parse_install_dates to_datetime index_tz metas)"
  shows "install_window_filter index_tz cutoffs rows =
           (if index_tz = None \<and>
               (\<exists>kv \<in> set cutoffs. case snd kv of NaT \<Rightarrow> False | Stamp c \<Rightarrow> ts_tz c \<noteq> None)
            then Inl TypeError_tz_compare
            else Inr (filter (\<lambda>r. case map_of cutoffs (r_dev r) of
                                     None \<Rightarrow> True
                                   | Some NaT \<Rightarrow> False
                                   | Some (Stamp cutoff) \<Rightarrow> ts_value cutoff \<le> r_time r) rows))
         \<and> (\<forall>out B. install_window_filter index_tz cutoffs rows = Inr out \<longrightarrow>
               filter (\<lambda>r. r_dev r = B) out =
               filter (\<lambda>r. r_dev r = B \<and>
                            (case map_of cutoffs B of
                               None \<Rightarrow> True
                             | Some NaT \<Rightarrow> False
                             | Some (Stamp cutoff) \<Rightarrow> ts_value cutoff \<le> r_time r)) rows)"
proof -
  have dist: "distinct (map fst cutoffs)"
    using assms by (simp add: distinct_parse_install_dates)
  have cmp: "(\<forall>kv \<in> set cutoffs. comparable index_tz (snd kv)) =
             (\<not> (index_tz = None \<and>
                 (\<exists>kv \<in> set cutoffs. case snd kv of NaT \<Rightarrow> False | Stamp c \<Rightarrow> ts_tz c \<noteq> None)))"
  proof (cases index_tz)
    case None
    then show ?thesis by (auto simp: comparable_def split: datetime.splits)
  next
    case (Some z)
    have "\<forall>kv \<in> set cutoffs. comparable (Some z) (snd kv)"
      unfolding assms Some parse_install_dates_def by (rule registered_comparable) simp
    with Some show ?thesis by simp
  qed
  have keep: "keep_row cutoffs = (\<lambda>r. case map_of cutoffs (r_dev r) of
                                     None \<Rightarrow> True
                                   | Some NaT \<Rightarrow> False
                                   | Some (Stamp cutoff) \<Rightarrow> ts_value cutoff \<le> r_time r)"
    by (rule ext) (simp add: keep_row_def index_ge_def split: option.splits datetime.splits)
  have eq: "install_window_filter index_tz cutoffs rows =
           (if index_tz = None \<and>
               (\<exists>kv \<in> set cutoffs. case snd kv of NaT \<Rightarrow> False | Stamp c \<Rightarrow> ts_tz c \<noteq> None)
            then Inl TypeError_tz_compare
            else Inr (filter (keep_row cutoffs) rows))"
    unfolding install_window_filter_char [OF dist] cmp by simp
  have per: "filter (\<lambda>r. r_dev r = B) (filter (keep_row cutoffs) rows) =
             filter (\<lambda>r. r_dev r = B \<and>
                            (case map_of cutoffs B of
                               None \<Rightarrow> True
                             | Some NaT \<Rightarrow> False
                             | Some (Stamp cutoff) \<Rightarrow> ts_value cutoff \<le> r_time r)) rows" for B
    unfolding filter_filter keep by (intro filter_cong refl) auto
  have part1: "install_window_filter index_tz cutoffs rows =
           (if index_tz = None \<and>
               (\<exists>kv \<in> set cutoffs. case snd kv of NaT \<Rightarrow> False | Stamp c \<Rightarrow> ts_tz c \<noteq> None)
            then Inl TypeError_tz_compare
            else Inr (filter (\<lambda>r. case map_of cutoffs (r_dev r) of
                                     None \<Rightarrow> True
                                   | Some NaT \<Rightarrow> False
                                   | Some (Stamp cutoff) \<Rightarrow> ts_value cutoff \<le> r_time r) rows))"
    using eq unfolding keep .
  have part2: "filter (\<lambda>r. r_dev r = B) out =
               filter (\<lambda>r. r_dev r = B \<and>
                            (case map_of cutoffs B of
                               None \<Rightarrow> True
                             | Some NaT \<Rightarrow> False
                             | Some (Stamp cutoff) \<Rightarrow> ts_value cutoff \<le> r_time r)) rows"
    if "install_window_filter index_tz cutoffs rows = Inr out" for out B
  proof -
    from that eq have "out = filter (keep_row cutoffs) rows" by (simp split: if_splits)
    then show ?thesis using per [of B] by simp
  qed
  from part1 part2 show ?thesis by blast
qed

theorem window_filter_own_cutoff_witness:
  "install_window_filter (Some ''UTC'')
     (fst (parse_install_dates example_to_datetime (Some ''UTC'') example_metadata))
     example_readings =
   Inr [example_readings ! 1, example_readings ! 2, example_readings ! 3, example_readings ! 4]
   \<and> filter (\<lambda>r. r_dev r = ''X2'')
        [example_readings ! 1, example_readings ! 2, example_readings ! 3, example_readings ! 4] =
      filter (\<lambda>r. r_dev r = ''X2'' \<and>
                   (case map_of (fst (parse_install_dates example_to_datetime (Some ''UTC'')
                                        example_metadata)) ''X2'' of
                      None \<Rightarrow> True
                    | Some NaT \<Rightarrow> False
                    | Some (Stamp cutoff) \<Rightarrow> ts_value cutoff \<le> r_time r)) example_readings"
proof -
  have run: "install_window_filter (Some ''UTC'')
     (fst (parse_install_dates example_to_datetime (Some ''UTC'') example_metadata))
     example_readings =
   Inr [example_readings ! 1, example_readings ! 2, example_readings ! 3, example_readings ! 4]"
    by code_simp
  from window_filter_own_cutoff [OF refl, of "Some ''UTC''" example_to_datetime example_metadata
      example_readings] run
  show ?thesis by blast
qed

section \<open>Empty raw input\<close>

text \<open>
  Claim C10. When the raw readings have the device id column but no row, and the metadata
  has the id column, the pipeline raises a division by zero while it reports the retained
  fraction (line 129), before the check for an empty overlap is reached: the error of an
  empty raw input is never the one for no matching devices.
\<close>

theorem empty_raw_input_divides_by_zero:
  assumes "df_has_dev_id df" and "gdf_has_id gdf" and "df_rows df = []"
  shows "save_aggregated_data to_datetime df gdf c = Inl ZeroDivisionError
         \<and> save_aggregated_data to_datetime df gdf c \<noteq> Inl NoMatchingDevices"
  using assms by (simp add: save_aggregated_data_def Let_def)

theorem empty_raw_input_divides_by_zero_witness:
  "df_has_dev_id (example_df\<lparr>df_rows := []\<rparr>) \<and> gdf_has_id example_gdf
   \<and> df_rows (example_df\<lparr>df_rows := []\<rparr>) = []
   \<and> save_aggregated_data example_to_datetime (example_df\<lparr>df_rows := []\<rparr>) example_gdf
        3600000000000 = Inl ZeroDivisionError"
proof -
  have h: "df_has_dev_id (example_df\<lparr>df_rows := []\<rparr>)" "gdf_has_id example_gdf"
    "df_rows (example_df\<lparr>df_rows := []\<rparr>) = []"
    by (simp_all add: example_df_def example_gdf_def)
  from empty_raw_input_divides_by_zero [OF h] h show ?thesis by blast
qed

section \<open>No overlap between raw and metadata device ids\<close>

text \<open>
  With at least one raw row and no raw device id among the metadata ids, the run raises the
  error for no matching devices and leaves no artifact.
\<close>

lemma no_overlap_raises:
  assumes "df_has_dev_id df" and "gdf_has_id gdf" and "df_rows df \<noteq> []"
    and "r_dev ` set (df_rows df) \<inter> valid_device_ids gdf = {}"
  shows "save_aggregated_data to_datetime df gdf c = Inl NoMatchingDevices
         \<and> output_artifact (save_aggregated_data to_datetime df gdf c) = None"
proof -
  have "device_filter (valid_device_ids gdf) (df_rows df) = []"
    using assms(4) by (auto simp: device_filter_def filter_empty_conv)
  with assms show ?thesis by (simp add: save_aggregated_data_def output_artifact_def Let_def)
qed

text \<open>
  Claim C3. Whenever no raw device id is among the metadata ids, the pipeline is to raise the
  error for no matching devices. On a raw input without rows (whose overlap with the metadata
  is empty) the run below raises a division by zero instead.
\<close>

theorem no_rows_no_overlap_raises_zero_division:
  "save_aggregated_data (\<lambda>s. None)
     \<lparr>df_has_dev_id = True, df_index_tz = Some ''UTC'',
      df_numeric_columns = [''humidity'', ''temperature''], df_rows = []\<rparr>
     \<lparr>gdf_has_id = True,
      gdf_rows = [\<lparr>m_id = ''A'', Date_installed = None, Asennettu_pvm = None\<rparr>]\<rparr>
     3600000000000
   = Inl ZeroDivisionError"
  by (simp add: save_aggregated_data_def)

section \<open>Device ids of the output\<close>

text \<open>
  Claim C4. Every row that a successful run of the device pipeline returns has a device id
  of the metadata. When an artifact is written, the categories of its device id column are
  exactly the sorted list of the distinct metadata ids, every row keeps its device id under
  the categorical encoding, and so no id absent from the metadata is persisted.
\<close>

theorem aggregated_ids_within_metadata:
  assumes "save_aggregated_data to_datetime df gdf c = Inr res"
  shows "(\<forall>r \<in> set (returned res). r_dev r \<in> m_id ` set (gdf_rows gdf))
       \<and> (\<forall>art. written res = Some art \<longrightarrow>
             art_categories art = sorted_list_of_set (m_id ` set (gdf_rows gdf))
           \<and> sorted (art_categories art) \<and> distinct (art_categories art)
           \<and> set (art_categories art) = m_id ` set (gdf_rows gdf)
           \<and> art_rows art = map (\<lambda>r. (r_time r, Some (r_dev r), r_vals r)) (returned res)
           \<and> (\<forall>row \<in> set (art_rows art).
                 \<exists>i \<in> m_id ` set (gdf_rows gdf). fst (snd row) = Some i))"
proof (intro conjI ballI allI impI)
  fix r assume "r \<in> set (returned res)"
  from returned_devices_valid [OF assms this]
  show "r_dev r \<in> m_id ` set (gdf_rows gdf)" by (simp add: valid_device_ids_def)
next
  fix art assume wr: "written res = Some art"
  let ?ids = "m_id ` set (gdf_rows gdf)"
  have fin: "finite ?ids" by simp
  from save_aggregated_data_InrD [OF assms] wr
  have art: "art = encode (valid_device_ids gdf) (returned res)"
    by (auto split: if_splits)
  then show cats: "art_categories art = sorted_list_of_set ?ids"
    by (simp add: encode_def valid_device_ids_def Let_def)
  from cats show "sorted (art_categories art)" and "distinct (art_categories art)"
    by simp_all
  from cats fin show set_cats: "set (art_categories art) = ?ids" by simp
  have "\<forall>r \<in> set (returned res). r_dev r \<in> ?ids"
    using returned_devices_valid [OF assms] by (simp add: valid_device_ids_def)
  then show rows: "art_rows art = map (\<lambda>r. (r_time r, Some (r_dev r), r_vals r)) (returned res)"
    unfolding art encode_def Let_def valid_device_ids_def using fin by simp
  fix row assume "row \<in> set (art_rows art)"
  then obtain r where "r \<in> set (returned res)" "row = (r_time r, Some (r_dev r), r_vals r)"
    unfolding rows by auto
  with returned_devices_valid [OF assms, of r]
  show "\<exists>i \<in> ?ids. fst (snd row) = Some i" by (simp add: valid_device_ids_def)
qed

theorem aggregated_ids_within_metadata_witness:
  "save_aggregated_data example_to_datetime example_df example_gdf 3600000000000
     = Inr example_result
   \<and> written example_result = Some example_artifact
   \<and> art_categories example_artifact = sorted_list_of_set (m_id ` set (gdf_rows example_gdf))
   \<and> set (art_categories example_artifact) = m_id ` set (gdf_rows example_gdf)"
proof -
  have run: "save_aggregated_data example_to_datetime example_df example_gdf 3600000000000
     = Inr example_result"
    by code_simp
  have wr: "written example_result = Some example_artifact"
    by (simp add: example_result_def)
  from aggregated_ids_within_metadata [OF run] wr run show ?thesis by blast
qed

section \<open>Buckets of the station pipeline\<close>

text \<open>
  In the station pipeline a bucket labeled \<open>t\<close> summarizes the readings of its station in
  \<open>[t, t + c)\<close>: the label is the left edge of the interval.
\<close>

lemma aggregate_stationD:
  assumes "b \<in> set (aggregate_station dt c n df station)"
  shows "b_station b = station \<and>
      (b_time b, b_vals b) \<in> set (resample_mean Label_left c n
          (map (\<lambda>r. (s_time r, s_vals r)) (filter (\<lambda>r. s_station r = station) df)))"
proof -
  let ?R = "resample_mean Label_left c n
          (map (\<lambda>r. (s_time r, s_vals r)) (filter (\<lambda>r. s_station r = station) df))"
  let ?id = "if dt = Fmisid_absent then None
             else (case filter (\<lambda>r. s_station r = station) df of
                     [] \<Rightarrow> None | r # rs \<Rightarrow> s_fmisid r)"
  from assms have
    "b \<in> (\<lambda>(t, means). \<lparr>b_time = t, b_station = station, b_fmisid = ?id, b_vals = means\<rparr>)
           ` set ?R"
    unfolding aggregate_station_def Let_def by simp
  then obtain p where p: "p \<in> set ?R"
    and b: "b = (case p of (t, means) \<Rightarrow>
                  \<lparr>b_time = t, b_station = station, b_fmisid = ?id, b_vals = means\<rparr>)"
    by blast
  obtain t ms where "p = (t, ms)" by (cases p)
  with p b show ?thesis by simp
qed

lemma station_bucket_interval:
  assumes "0 < c" and "b \<in> set (aggregate_station dt c n df station)"
  shows "b_vals b = bin_means n (map s_vals (filter
            (\<lambda>r. s_station r = station \<and> b_time b \<le> s_time r \<and> s_time r < b_time b + c) df))"
proof -
  let ?pairs = "map (\<lambda>r. (s_time r, s_vals r)) (filter (\<lambda>r. s_station r = station) df)"
  let ?o = "start_day (Min (fst ` set ?pairs))"
  from aggregate_stationD [OF assms(2)]
  have mem: "(b_time b, b_vals b) \<in> set (resample_mean Label_left c n ?pairs)" by simp
  from resample_mean_bucket [OF assms(1) mem] obtain k where
    t: "b_time b = bin_label Label_left ?o c k" and
    ms: "b_vals b = bin_means n (map snd (filter
           (\<lambda>p. ?o + k * c \<le> fst p \<and> fst p < ?o + (k + 1) * c) ?pairs))"
    by blast
  have e1: "?o + k * c = b_time b" and e2: "?o + (k + 1) * c = b_time b + c"
    using t by (simp_all add: bin_label_def algebra_simps)
  have "map snd (filter (\<lambda>p. b_time b \<le> fst p \<and> fst p < b_time b + c) ?pairs) =
        map s_vals (filter
            (\<lambda>r. s_station r = station \<and> b_time b \<le> s_time r \<and> s_time r < b_time b + c) df)"
    by (simp add: filter_map comp_def conj_commute conj_left_commute)
  with ms show ?thesis unfolding e1 e2 by simp
qed

text \<open>
  Claim C5. The station pipeline is to label every bucket at the right edge of its interval,
  as the device pipeline does. For readings of one station at 00:10 and 00:40 and a cadence
  of one hour the run below labels the only bucket 00:00, the left edge, where the device
  pipeline labels it 01:00.
\<close>

theorem station_bucket_labeled_left:
  "combine_fmi_data Fmisid_absent 1 [kumpula_same_hour] 3600000000000 =
     Inr \<lparr>fmi_out = kumpula_same_hour,
          fmi_out_agg = [\<lparr>b_time = 1717200000000000000, b_station = ''Helsinki Kumpula'',
                          b_fmisid = None, b_vals = [Some 15]\<rparr>]\<rparr>"
  by code_simp

section \<open>Buckets without readings\<close>

text \<open>
  In the device pipeline a resampled bucket is emitted exactly when one of its means is not
  null. In the station pipeline with a numeric \<^verbatim>\<open>fmisid\<close> column whose first cell is not null,
  no bucket of the resampler is dropped.
\<close>

lemma device_bucket_emitted_iff:
  "(\<lparr>r_time = t, r_dev = d, r_vals = ms\<rparr> \<in> set (aggregate_device c n filtered d)) =
     ((t, ms) \<in> set (resample_mean Label_right c n
          (map (\<lambda>r. (r_time r, r_vals r)) (filter (\<lambda>r. r_dev r = d) filtered)))
      \<and> list_ex (\<lambda>v. v \<noteq> None) ms)"
proof
  assume "\<lparr>r_time = t, r_dev = d, r_vals = ms\<rparr> \<in> set (aggregate_device c n filtered d)"
  from aggregate_deviceD [OF this]
  show "(t, ms) \<in> set (resample_mean Label_right c n
          (map (\<lambda>r. (r_time r, r_vals r)) (filter (\<lambda>r. r_dev r = d) filtered)))
      \<and> list_ex (\<lambda>v. v \<noteq> None) ms" by simp
next
  assume "(t, ms) \<in> set (resample_mean Label_right c n
          (map (\<lambda>r. (r_time r, r_vals r)) (filter (\<lambda>r. r_dev r = d) filtered)))
      \<and> list_ex (\<lambda>v. v \<noteq> None) ms"
  then show "\<lparr>r_time = t, r_dev = d, r_vals = ms\<rparr> \<in> set (aggregate_device c n filtered d)"
    by (simp add: aggregate_deviceI)
qed

lemma station_numeric_fmisid_keeps_all:
  assumes "filter (\<lambda>r. s_station r = station) df = r # rs" and "s_fmisid r \<noteq> None"
  shows "map (\<lambda>b. (b_time b, b_vals b)) (aggregate_station Fmisid_numeric c n df station) =
         resample_mean Label_left c n (map (\<lambda>r. (s_time r, s_vals r)) (r # rs))"
proof -
  have "filter (\<lambda>b. list_ex (\<lambda>v. v \<noteq> None) (b_vals b) \<or>
                     (Fmisid_numeric = Fmisid_numeric \<and> b_fmisid b \<noteq> None))
          (map (\<lambda>(t, means). \<lparr>b_time = t, b_station = station, b_fmisid = s_fmisid r,
                                b_vals = means\<rparr>) R) =
        map (\<lambda>(t, means). \<lparr>b_time = t, b_station = station, b_fmisid = s_fmisid r,
                                b_vals = means\<rparr>) R" for R
    using assms(2) by (induction R) (simp_all add: split_beta)
  then show ?thesis
    unfolding aggregate_station_def Let_def assms(1)
    by (simp add: comp_def split_beta)
qed

text \<open>
  Claim C6. In both pipelines every bucket whose metric columns are all null is to be
  dropped. For a station with a numeric \<^verbatim>\<open>fmisid\<close> and readings at 00:10 and 02:10 only, at
  a cadence of one hour, the run below emits the bucket labeled 01:00 although its only
  metric is null: \<^verbatim>\<open>fmisid\<close> is among \<^verbatim>\<open>numeric_columns\<close> and has been overwritten with the
  identifier before \<^verbatim>\<open>dropna\<close> looks at it.
\<close>

theorem station_empty_bucket_kept:
  "combine_fmi_data Fmisid_numeric 1 [kumpula_with_gap] 3600000000000 =
     Inr \<lparr>fmi_out = kumpula_with_gap,
          fmi_out_agg =
            [\<lparr>b_time = 1717200000000000000, b_station = ''Helsinki Kumpula'',
              b_fmisid = Some 101004, b_vals = [Some 10]\<rparr>,
             \<lparr>b_time = 1717203600000000000, b_station = ''Helsinki Kumpula'',
              b_fmisid = Some 101004, b_vals = [None]\<rparr>,
             \<lparr>b_time = 1717207200000000000, b_station = ''Helsinki Kumpula'',
              b_fmisid = Some 101004, b_vals = [Some 20]\<rparr>]\<rparr>"
  by code_simp

section \<open>The cutoff of a device\<close>

text \<open>
  Claim C7, as the code has it. The ids of the metadata are unique. For a metadata record
  whose install date (\<^verbatim>\<open>Date_installed\<close> when present, else \<^verbatim>\<open>Asennettu_pvm\<close>) is parsed to
  a timestamp, the cutoff of its device is that timestamp plus one day, provided the sum is
  within the range of pandas timestamps: when the index of the raw readings is aware, a naive
  cutoff is localized to UTC and an aware one is converted to the zone of the index; when the
  index is naive the cutoff is left as it is. When the sum is beyond the largest timestamp,
  when the parser raises, and when neither field is present, the device has no cutoff.
  Nothing is said of an install date that is parsed to \<^verbatim>\<open>NaT\<close>.
\<close>

theorem cutoff_is_install_date_plus_one_day:
  assumes "distinct (map m_id metas)" and "row \<in> set metas"
    and "install = (case Date_installed row of Some s \<Rightarrow> Some s | None \<Rightarrow> Asennettu_pvm row)"
    and "cutoffs = fst (parse_install_dates to_datetime index_tz metas)"
  shows "(install = None \<longrightarrow> map_of cutoffs (m_id row) = None)
       \<and> (\<forall>s. install = Some s \<and> to_datetime s = None \<longrightarrow> map_of cutoffs (m_id row) = None)
       \<and> (\<forall>s d. install = Some s \<and> to_datetime s = Some (Stamp d) \<longrightarrow>
             map_of cutoffs (m_id row) =
               (if ts_value d + 86400000000000 \<le> 9223372036854775807
                then Some (Stamp
                       (let cutoff = d\<lparr>ts_value := ts_value d + 86400000000000\<rparr>
                        in case index_tz of
                             None \<Rightarrow> cutoff
                           | Some z \<Rightarrow>
                               (case ts_tz cutoff of
                                  None \<Rightarrow> cutoff\<lparr>ts_tz := Some ''UTC''\<rparr>
                                | Some z' \<Rightarrow> cutoff\<lparr>ts_tz := Some z\<rparr>)))
                else None))"
proof -
  have inst: "install_date row = install"
    unfolding assms(3) by (simp add: install_date_def split: option.splits)
  have look: "map_of cutoffs (m_id row) = stored_cutoff to_datetime index_tz row"
    unfolding assms(4) by (rule map_of_parse_install_dates [OF assms(1,2)])
  have norm: "normalize_cutoff index_tz (d\<lparr>ts_value := ts_value d + 86400000000000\<rparr>) =
        (let cutoff = d\<lparr>ts_value := ts_value d + 86400000000000\<rparr>
         in case index_tz of
              None \<Rightarrow> cutoff
            | Some z \<Rightarrow>
                (case ts_tz cutoff of
                   None \<Rightarrow> cutoff\<lparr>ts_tz := Some ''UTC''\<rparr>
                 | Some z' \<Rightarrow> cutoff\<lparr>ts_tz := Some z\<rparr>))" for d
    by (cases d)
       (simp add: normalize_cutoff_def tz_localize_utc_def tz_convert_def Let_def
          split: option.splits)
  have a: "install = None \<longrightarrow> map_of cutoffs (m_id row) = None"
    unfolding look by (simp add: stored_cutoff_def inst)
  have b: "install = Some s \<and> to_datetime s = None \<longrightarrow> map_of cutoffs (m_id row) = None" for s
    unfolding look by (simp add: stored_cutoff_def inst)
  have c: "install = Some s \<and> to_datetime s = Some (Stamp d) \<longrightarrow>
             map_of cutoffs (m_id row) =
               (if ts_value d + 86400000000000 \<le> 9223372036854775807
                then Some (Stamp
                       (let cutoff = d\<lparr>ts_value := ts_value d + 86400000000000\<rparr>
                        in case index_tz of
                             None \<Rightarrow> cutoff
                           | Some z \<Rightarrow>
                               (case ts_tz cutoff of
                                  None \<Rightarrow> cutoff\<lparr>ts_tz := Some ''UTC''\<rparr>
                                | Some z' \<Rightarrow> cutoff\<lparr>ts_tz := Some z\<rparr>)))
                else None)" for s d
    unfolding look norm [symmetric]
    by (simp add: stored_cutoff_def inst plus_one_day_def day_ns_def max_ns_def)
  from a b c show ?thesis by blast
qed

theorem cutoff_is_install_date_plus_one_day_witness:
  "distinct (map m_id example_metadata) \<and> example_metadata ! 0 \<in> set example_metadata
   \<and> example_to_datetime ''2024-01-02''
       = Some (Stamp \<lparr>ts_value = 1704153600000000000, ts_tz = None\<rparr>)
   \<and> map_of (fst (parse_install_dates example_to_datetime (Some ''UTC'') example_metadata)) ''X1''
       = Some (Stamp \<lparr>ts_value = 1704240000000000000, ts_tz = Some ''UTC''\<rparr>)"
proof -
  have h: "distinct (map m_id example_metadata)" "example_metadata ! 0 \<in> set example_metadata"
    by (simp_all add: example_metadata_def)
  have i: "Some ''2024-01-02'' =
      (case Date_installed (example_metadata ! 0) of
         Some s \<Rightarrow> Some s | None \<Rightarrow> Asennettu_pvm (example_metadata ! 0))"
    by (simp add: example_metadata_def)
  have p: "example_to_datetime ''2024-01-02''
       = Some (Stamp \<lparr>ts_value = 1704153600000000000, ts_tz = None\<rparr>)"
    by (simp add: example_to_datetime_def)
  have id: "m_id (example_metadata ! 0) = ''X1''"
    by (simp add: example_metadata_def)
  note th = cutoff_is_install_date_plus_one_day [OF h i refl,
      of example_to_datetime "Some ''UTC''"]
  from conjunct2 [OF conjunct2 [OF th]] p
  have "map_of (fst (parse_install_dates example_to_datetime (Some ''UTC'') example_metadata))
          (m_id (example_metadata ! 0))
       = Some (Stamp \<lparr>ts_value = 1704240000000000000, ts_tz = Some ''UTC''\<rparr>)"
    by simp
  with h p show ?thesis unfolding id by blast
qed

text \<open>
  Claim C7 as stated gives every record with an install date the cutoff of that date plus
  one day. A device installed on 2262-04-11, the last day that a pandas timestamp reaches,
  has no cutoff: the addition of line 96 raises inside the \<^verbatim>\<open>try\<close>.
\<close>

theorem install_date_on_last_day_counterexample:
  "example_to_datetime ''2262-04-11''
     = Some (Stamp \<lparr>ts_value = 9223286400000000000, ts_tz = None\<rparr>)
   \<and> map_of (fst (parse_install_dates example_to_datetime (Some ''UTC'') late_date_metadata)) ''X1''
     = None"
  by code_simp

section \<open>An unparseable install date\<close>

text \<open>
  When \<^verbatim>\<open>pd.to_datetime\<close> raises on the install date of a metadata record (the ids being
  unique), the failure stays with that record: its device has no cutoff and all its readings
  pass the window filter, the parse error is logged, the loop goes on, and the cutoffs of all
  devices are the ones that the metadata without this record gives.
\<close>

lemma raising_install_date_is_local:
  assumes "install_date row = Some s" and "to_datetime s = None"
    and "distinct (map m_id (before @ row # after))"
    and "cutoffs = fst (parse_install_dates to_datetime index_tz (before @ row # after))"
  shows "map_of cutoffs (m_id row) = None
       \<and> Parse_error_logged (m_id row) s
            \<in> set (snd (parse_install_dates to_datetime index_tz (before @ row # after)))
       \<and> cutoffs = fst (parse_install_dates to_datetime index_tz (before @ after))
       \<and> (\<forall>rows out. install_window_filter index_tz cutoffs rows = Inr out \<longrightarrow>
             filter (\<lambda>r. r_dev r = m_id row) out = filter (\<lambda>r. r_dev r = m_id row) rows)
       \<and> (\<forall>rows. install_window_filter index_tz cutoffs rows =
             install_window_filter index_tz
               (fst (parse_install_dates to_datetime index_tz (before @ after))) rows)"
proof -
  have mem: "row \<in> set (before @ row # after)" by simp
  have none: "map_of cutoffs (m_id row) = None"
    unfolding assms(4) map_of_parse_install_dates [OF assms(3) mem]
    by (simp add: stored_cutoff_def assms(1,2))
  have logged: "Parse_error_logged (m_id row) s
            \<in> set (snd (parse_install_dates to_datetime index_tz (before @ row # after)))"
    unfolding parse_install_dates_def by (rule registered_log [where p = to_datetime, OF mem assms(1,2)])
  have same: "cutoffs = fst (parse_install_dates to_datetime index_tz (before @ after))"
    unfolding assms(4) by (rule parse_install_dates_skip [where p = to_datetime, OF assms(1,2)])
  have dist: "distinct (map fst cutoffs)"
    unfolding assms(4) by (rule distinct_parse_install_dates)
  have pass: "filter (\<lambda>r. r_dev r = m_id row) out = filter (\<lambda>r. r_dev r = m_id row) rows"
    if "install_window_filter index_tz cutoffs rows = Inr out" for rows out
  proof -
    from that have "out = filter (keep_row cutoffs) rows"
      unfolding install_window_filter_char [OF dist] by (simp split: if_splits)
    then show ?thesis
      unfolding filter_filter using none
      by (auto intro!: filter_cong simp: keep_row_def)
  qed
  from none logged same pass show ?thesis by simp
qed

text \<open>
  Claim C8. A device whose install date is present but unparseable is to proceed with no
  cutoff, its readings passing the window filter. For the empty string as install date
  \<^verbatim>\<open>pd.to_datetime\<close> returns \<^verbatim>\<open>NaT\<close> without raising. In the run below the parse error of
  device \<open>X1\<close> is logged, yet the dictionary holds the cutoff \<^verbatim>\<open>NaT\<close> for it, the window
  filter removes all three readings of \<open>X1\<close>, and only the bucket of \<open>X2\<close> is returned.
\<close>

theorem empty_install_date_removes_all_readings:
  "parse_install_dates example_to_datetime (Some ''UTC'') (gdf_rows empty_date_gdf) =
     ([(''X1'', NaT)], [Parse_error_logged ''X1'' [], No_install_date_logged ''X2''])
   \<and> install_window_filter (Some ''UTC'') [(''X1'', NaT)]
        (device_filter (valid_device_ids empty_date_gdf) example_readings) =
      Inr [example_readings ! 1]
   \<and> save_aggregated_data example_to_datetime example_df empty_date_gdf 3600000000000 =
      Inr \<lparr>returned =
             [\<lparr>r_time = 1704070800000000000, r_dev = ''X2'', r_vals = [Some 70, Some 5]\<rparr>],
           written =
             Some \<lparr>art_categories = [''X1'', ''X2''],
                   art_rows = [(1704070800000000000, Some ''X2'', [Some 70, Some 5])]\<rparr>,
           run_log = [Parse_error_logged ''X1'' [], No_install_date_logged ''X2'']\<rparr>"
  by code_simp

section \<open>Order of the aggregated output\<close>

text \<open>
  Claim C9, as the code has it. The aggregator concatenates the results of the partitions, in
  the order in which the devices first appear in the filtered readings, and sorts the whole by
  bucket timestamp alone: the output is ascending in the timestamp and has the same rows, and
  a concatenation that is already ascending is returned as it is. The entity key is no sort
  key, so rows with equal timestamps are not ordered by it.
\<close>

theorem aggregate_sorted_by_time_only:
  "sorted (map r_time (aggregate c n filtered))
   \<and> mset (aggregate c n filtered) =
       mset (concat (map (aggregate_device c n filtered) (unique (map r_dev filtered))))
   \<and> (sorted (map r_time
          (concat (map (aggregate_device c n filtered) (unique (map r_dev filtered))))) \<longrightarrow>
       aggregate c n filtered =
         concat (map (aggregate_device c n filtered) (unique (map r_dev filtered))))"
  unfolding aggregate_def sort_index_def
  by (simp add: sort_key_id_if_sorted)

theorem aggregate_sorted_by_time_only_witness:
  "sorted (map r_time (concat (map (aggregate_device 3600000000000 1 tied_readings)
                                 (unique (map r_dev tied_readings)))))
   \<and> aggregate 3600000000000 1 tied_readings =
       concat (map (aggregate_device 3600000000000 1 tied_readings)
                   (unique (map r_dev tied_readings)))"
proof -
  have s: "sorted (map r_time (concat (map (aggregate_device 3600000000000 1 tied_readings)
                                 (unique (map r_dev tied_readings)))))"
    by code_simp
  from aggregate_sorted_by_time_only [of 3600000000000 1 tied_readings] s
  show ?thesis by blast
qed

text \<open>
  Claim C9 as stated wants the row with the smaller entity key first among rows with equal
  bucket timestamps, whatever the order of the partitions. Devices \<open>B\<close> and \<open>A\<close> with one
  reading each at 00:10 give two buckets labeled 01:00; the output has \<open>B\<close> before \<open>A\<close> when
  \<open>B\<close> comes first in the raw readings, and \<open>A\<close> before \<open>B\<close> when the raw rows are reversed.
\<close>

theorem equal_timestamps_keep_partition_order_counterexample:
  "aggregate 3600000000000 1 tied_readings =
     [\<lparr>r_time = 3600000000000, r_dev = ''B'', r_vals = [Some 10]\<rparr>,
      \<lparr>r_time = 3600000000000, r_dev = ''A'', r_vals = [Some 20]\<rparr>]
   \<and> ''A'' < ''B''
   \<and> aggregate 3600000000000 1 (rev tied_readings) =
     [\<lparr>r_time = 3600000000000, r_dev = ''A'', r_vals = [Some 20]\<rparr>,
      \<lparr>r_time = 3600000000000, r_dev = ''B'', r_vals = [Some 10]\<rparr>]"
  by code_simp

end
